theory Spec2Isabelle
  imports Complex_Main "HOL-Library.Sublist"
begin

section \<open>JavaScript values and strings\<close>

text \<open>
  The quote generator is a JavaScript class that assembles an HTML document from
  strings. Its functions are embedded as HOL functions over the following model of
  the language's values.

  \<^item> A string is a \<^typ>\<open>string\<close>: the list of its bytes in UTF-8. The only character of
    the source outside ASCII is the check mark U+2714, which is three bytes.
  \<^item> A number is an exact rational. The rounding of binary64 arithmetic, the
    infinities and the sign of zero are not modelled; \<open>NaN\<close> appears only as the
    failure of \<open>parseFloat\<close>. Printing is modelled for magnitudes below \<open>10^21\<close>,
    where JavaScript prints plain decimal digits.
  \<^item> A property whose run-time type or truthiness the code inspects is a
    \<open>jsval\<close>; a property that the code uses at one type only is an \<open>option\<close>
    of that type, with \<open>None\<close> for an absent (\<open>undefined\<close> or \<open>null\<close>) property.
\<close>

datatype 'n jsval = Undefined | Null | Bool bool | Num 'n | Str string

text \<open>\<open>ToBoolean\<close>: what \<open>!v\<close>, \<open>v ? a : b\<close>, \<open>v && w\<close> and \<open>v || w\<close> test.\<close>

fun truthy :: "('n::zero) jsval \<Rightarrow> bool" where
  "truthy Undefined = False"
| "truthy Null = False"
| "truthy (Bool b) = b"
| "truthy (Num n) = (n \<noteq> 0)"
| "truthy (Str s) = (s \<noteq> [])"

text \<open>\<open>v || d\<close> on an optional number and on an optional string.\<close>

definition num_or :: "('n::zero) option \<Rightarrow> 'n \<Rightarrow> 'n" where
  "num_or v d = (case v of None \<Rightarrow> d | Some n \<Rightarrow> if n = 0 then d else n)"

definition str_or :: "string option \<Rightarrow> string \<Rightarrow> string" where
  "str_or v d = (case v of None \<Rightarrow> d | Some s \<Rightarrow> if s = [] then d else s)"

text \<open>An optional property read as a value: absent is \<open>undefined\<close>.\<close>

definition of_num :: "'n option \<Rightarrow> 'n jsval" where
  "of_num v = (case v of None \<Rightarrow> Undefined | Some n \<Rightarrow> Num n)"

definition of_str :: "string option \<Rightarrow> 'n jsval" where
  "of_str v = (case v of None \<Rightarrow> Undefined | Some s \<Rightarrow> Str s)"

subsection \<open>Printing numbers\<close>

definition digit_char :: "nat \<Rightarrow> char" where
  "digit_char d = ''0123456789'' ! (d mod 10)"

fun digits_of :: "nat \<Rightarrow> string" where
  "digits_of n = (if n < 10 then [digit_char n] else digits_of (n div 10) @ [digit_char n])"

text \<open>\<open>Number::toString\<close> on an integer, and \<open>ToString\<close> on a value.\<close>

definition int_to_string :: "int \<Rightarrow> string" where
  "int_to_string i = (if i < 0 then ''-'' @ digits_of (nat (- i)) else digits_of (nat i))"

fun ToString :: "int jsval \<Rightarrow> string" where
  "ToString Undefined = ''undefined''"
| "ToString Null = ''null''"
| "ToString (Bool b) = (if b then ''true'' else ''false'')"
| "ToString (Num i) = int_to_string i"
| "ToString (Str s) = s"

text \<open>
  \<open>Number.prototype.toFixed(2)\<close>, by the steps of the language definition: the sign is
  split off, \<open>n\<close> is the integer nearest to \<open>100 * x\<close> (the larger one of two), its digits
  are padded with zeros to three at least, and the point goes before the last two.
\<close>

definition toFixed2 :: "rat \<Rightarrow> string" where
  "toFixed2 x =
     (let s = (if x < 0 then ''-'' else []);
          a = \<bar>x\<bar>;
          n = nat \<lfloor>a * 100 + 1 / 2\<rfloor>;
          m = digits_of n;
          m = (if length m \<le> 2 then replicate (3 - length m) CHR ''0'' @ m else m);
          k = length m
      in s @ take (k - 2) m @ ''.'' @ drop (k - 2) m)"

subsection \<open>String methods\<close>

definition is_space :: "char \<Rightarrow> bool" where
  "is_space c = (c \<in> set [CHR 0x09, CHR 0x0A, CHR 0x0B, CHR 0x0C, CHR 0x0D, CHR 0x20])"

text \<open>\<open>String.prototype.trim\<close> (on ASCII white space).\<close>

definition trim :: "string \<Rightarrow> string" where
  "trim s = rev (dropWhile is_space (rev (dropWhile is_space s)))"

text \<open>\<open>String.prototype.toLowerCase\<close> (on ASCII letters).\<close>

definition lower_char :: "char \<Rightarrow> char" where
  "lower_char c = (let n = of_char c :: nat in if 65 \<le> n \<and> n \<le> 90 then char_of (n + 32) else c)"

definition toLowerCase :: "string \<Rightarrow> string" where
  "toLowerCase s = map lower_char s"

text \<open>\<open>String.prototype.includes\<close>.\<close>

fun includes_str :: "string \<Rightarrow> string \<Rightarrow> bool" where
  "includes_str [] p = (p = [])"
| "includes_str (c # cs) p = (prefix p (c # cs) \<or> includes_str cs p)"

text \<open>\<open>s.replace(/\n/g, '<br>')\<close>.\<close>

fun nl_to_br :: "string \<Rightarrow> string" where
  "nl_to_br [] = []"
| "nl_to_br (c # cs) = (if c = CHR 0x0A then ''<br>'' @ nl_to_br cs else c # nl_to_br cs)"

text \<open>\<open>Array.prototype.join\<close> on an array of strings.\<close>

fun join :: "string \<Rightarrow> string list \<Rightarrow> string" where
  "join sep [] = []"
| "join sep [x] = x"
| "join sep (x # y # ys) = x @ sep @ join sep (y # ys)"

section \<open>The currency formatter\<close>

text \<open>
  \<^verbatim>\<open>const formatPrice = (price) =>
    (typeof price === 'number' && price > 0) ? `$${price.toFixed(2)}` : '';\<close>
\<close>

definition formatPrice :: "rat jsval \<Rightarrow> string" where
  "formatPrice price =
     (case price of
        Num p \<Rightarrow> if p > 0 then ''$'' @ toFixed2 p else []
      | _ \<Rightarrow> [])"

section \<open>The data of a render call\<close>

text \<open>
  An order item. \<open>width\<close>, \<open>height\<close> and \<open>motor\<close> are only tested for truthiness; the
  other properties are used as strings, \<open>linePrice\<close> as a number.
\<close>

record item =
  width :: "rat jsval"
  height :: "rat jsval"
  fabric :: "string option"
  fabricType :: "string option"
  color :: "string option"
  location :: "string option"
  winder :: "string option"
  dual :: "string option"
  motor :: "rat jsval"
  linePrice :: "rat option"

text \<open>\<open>quoteData.products.rollerBlind.items\<close>.\<close>

record rollerBlind =
  items :: "item list"

record products =
  rollerBlind :: rollerBlind

record quoteData =
  products :: products

text \<open>The summary that \<open>calculationService.calculateF2Summary\<close> returns.\<close>

record summaryData =
  firstRbPrice :: "rat option"
  disRbPrice :: "rat option"
  acceSum :: "rat option"
  eAcceSum :: "rat option"
  deliveryFee :: "rat option"
  installFee :: "rat option"
  removalFee :: "rat option"
  sumPrice :: "rat option"
  gst :: "rat option"
  mulTimes :: "rat option"

text \<open>The UI state: \<open>ui.f1\<close>, \<open>ui.f2\<close> and the drive accessory counts.\<close>

record f1 =
  remote_1ch_qty :: "int option"

record f2 =
  deliveryFeeExcluded :: bool
  installFeeExcluded :: bool
  removalFeeExcluded :: bool
  deliveryQty :: "int option"
  removalQty :: "int option"

record ui =
  f1 :: f1
  f2 :: f2
  driveRemoteCount :: "int option"
  driveChargerCount :: "int option"
  driveCordCount :: "int option"

text \<open>The document metadata \<open>f3Data\<close>; the final offer price is a number or absent.\<close>

record f3Data =
  quoteId :: "string option"
  issueDate :: "string option"
  dueDate :: "string option"
  customerName :: "string option"
  customerAddress :: "string option"
  customerPhone :: "string option"
  customerEmail :: "string option"
  generalNotes :: "string option"
  termsConditions :: "string option"
  finalOfferPrice :: "rat option"

section \<open>The detail table\<close>

definition check_mark :: string where
  "check_mark = [CHR 0xE2, CHR 0x9C, CHR 0x94]"

definition headers :: "string list" where
  "headers = [''#'', ''F-NAME'', ''F-COLOR'', ''Location'', ''HD'', ''Dual'', ''Motor'', ''Price'']"

text \<open>The filter of both tables: \<open>item => item.width && item.height\<close>.\<close>

definition has_size :: "item \<Rightarrow> bool" where
  "has_size item = (truthy (width item) \<and> truthy (height item))"

text \<open>
  \<^verbatim>\<open>const cell = (dataLabel, content, cssClass = '') => {
      const isEmpty = !content;
      const finalClass = `${cssClass} ${isEmpty ? 'is-empty-cell' : ''}`.trim();
      return `<td data-label="${dataLabel}" class="${finalClass}">${content}</td>`;
  };\<close>
\<close>

definition cell :: "string \<Rightarrow> int jsval \<Rightarrow> string \<Rightarrow> string" where
  \<open>cell dataLabel content cssClass =
     (let isEmpty = \<not> truthy content;
          finalClass = trim (cssClass @ '' '' @ (if isEmpty then ''is-empty-cell'' else []))
      in ''<td data-label="'' @ dataLabel @ ''" class="'' @ finalClass @ ''">'' @
         ToString content @ ''</td>'')\<close>

text \<open>The background class of the fabric and colour cells.\<close>

definition fabricClass :: "item \<Rightarrow> string" where
  "fabricClass item =
     (if (case fabric item of None \<Rightarrow> False
          | Some f \<Rightarrow> f \<noteq> [] \<and> includes_str (toLowerCase f) ''light-filter'')
      then ''bg-light-filter''
      else if fabricType item = Some ''SN'' then ''bg-screen''
      else if fabricType item \<in> set (map Some [''B1'', ''B2'', ''B3'', ''B4'', ''B5''])
      then ''bg-blockout''
      else [])"

text \<open>The callback of \<open>map\<close>: the row of one item, \<open>index\<close> counting from 0.\<close>

definition itemRow :: "rat \<Rightarrow> nat \<Rightarrow> item \<Rightarrow> string" where
  "itemRow mulTimes' index item =
     (let finalPrice = num_or (linePrice item) 0 * mulTimes';
          cells =
            [cell ''#'' (Num (int index + 1)) ''text-center'',
             cell ''F-NAME'' (Str (str_or (fabric item) [])) (fabricClass item),
             cell ''F-COLOR'' (Str (str_or (color item) [])) (fabricClass item),
             cell ''Location'' (Str (str_or (location item) [])) [],
             cell ''HD'' (Str (if winder item = Some ''HD'' then check_mark else [])) ''text-center'',
             cell ''Dual'' (Str (if dual item = Some ''D'' then check_mark else [])) ''text-center'',
             cell ''Motor'' (Str (if truthy (motor item) then check_mark else [])) ''text-center'',
             cell ''Price'' (Str (''$'' @ toFixed2 finalPrice)) ''text-right'']
      in ''<tr>'' @ join [] cells @ ''</tr>'')"

text \<open>The \<open>rows\<close> of \<open>_generateItemsTableHtml\<close>, before they are joined.\<close>

definition detailRows :: "item list \<Rightarrow> summaryData \<Rightarrow> string list" where
  "detailRows items' summaryData' =
     (let mulTimes' = num_or (mulTimes summaryData') 1
      in map (\<lambda>(index, item). itemRow mulTimes' index item)
           (enumerate 0 (filter has_size items')))"

definition generateItemsTableHtml :: "item list \<Rightarrow> summaryData \<Rightarrow> string" where
  \<open>generateItemsTableHtml items' summaryData' =
     (let rows = join [] (detailRows items' summaryData')
      in ''\<newline>'' @
        ''            <table class="detailed-list-table">\<newline>'' @
        ''                <colgroup>\<newline>'' @
        ''                    <col style="width: 5%;">\<newline>'' @
        ''                    <col style="width: 20%;">\<newline>'' @
        ''                    <col style="width: 15%;">\<newline>'' @
        ''                    <col style="width: 12%;">\<newline>'' @
        ''                    <col style="width: 9%;">\<newline>'' @
        ''                    <col style="width: 9%;">\<newline>'' @
        ''                    <col style="width: 9%;">\<newline>'' @
        ''                    <col style="width: 13%;">\<newline>'' @
        ''                </colgroup>\<newline>'' @
        ''                <thead>\<newline>'' @
        ''                    <tr class="table-title">\<newline>'' @
        ''                        <th colspan="'' @
        ToString (Num (int (length headers))) @
        ''">Roller Blinds - Detailed List</th>\<newline>'' @
        ''                    </tr>\<newline>'' @
        ''                    <tr>\<newline>'' @
        ''                        '' @
        join [] (map (\<lambda>h. ''<th>'' @ h @ ''</th>'') headers) @
        ''\<newline>'' @
        ''                    </tr>\<newline>'' @
        ''                </thead>\<newline>'' @
        ''                <tbody>\<newline>'' @
        ''                    '' @
        rows @
        ''\<newline>'' @
        ''                </tbody>\<newline>'' @
        ''            </table>\<newline>'' @
        ''        '')\<close>

section \<open>The summary table of page one\<close>

text \<open>\<open>v > 0\<close> on an optional number: \<open>undefined > 0\<close> is false.\<close>

definition positive :: "rat option \<Rightarrow> bool" where
  "positive v = (case v of None \<Rightarrow> False | Some x \<Rightarrow> x > 0)"

text \<open>
  The six template literals that \<open>_generatePageOneItemsTableHtml\<close> pushes, each as a
  function of the texts interpolated into it, in the order of the \<open>${...}\<close>.
\<close>

definition roller_blinds_row :: "string \<Rightarrow> string \<Rightarrow> string \<Rightarrow> string" where
  \<open>roller_blinds_row qty price discounted =
     ''\<newline>'' @
     ''            <tr>\<newline>'' @
     ''                <td data-label="NO">1</td>\<newline>'' @
     ''                <td data-label="Description" class="description">Roller Blinds</td>\<newline>'' @
     ''                <td data-label="QTY" class="align-right">'' @
     qty @
     ''</td>\<newline>'' @
     ''                <td data-label="Price" class="align-right">\<newline>'' @
     ''                    <span class="original-price">$'' @
     price @
     ''</span>\<newline>'' @
     ''                </td>\<newline>'' @
     ''                <td data-label="Discounted Price" class="align-right">\<newline>'' @
     ''                    <span class="discounted-price">$'' @
     discounted @
     ''</span>\<newline>'' @
     ''                </td>\<newline>'' @
     ''            </tr>\<newline>'' @
     ''        ''\<close>

definition installation_accessories_row :: "string \<Rightarrow> string \<Rightarrow> string \<Rightarrow> string" where
  \<open>installation_accessories_row no price discounted =
     ''\<newline>'' @
     ''                <tr>\<newline>'' @
     ''                    <td data-label="NO">'' @
     no @
     ''</td>\<newline>'' @
     ''                    <td data-label="Description" class="description">Installation Accessories</td>\<newline>'' @
     ''                    <td data-label="QTY" class="align-right">NA</td>\<newline>'' @
     ''                    <td data-label="Price" class="align-right">$'' @
     price @
     ''</td>\<newline>'' @
     ''                    <td data-label="Discounted Price" class="align-right">$'' @
     discounted @
     ''</td>\<newline>'' @
     ''                </tr>\<newline>'' @
     ''            ''\<close>

definition motorised_accessories_row :: "string \<Rightarrow> string \<Rightarrow> string \<Rightarrow> string" where
  \<open>motorised_accessories_row no price discounted =
     ''\<newline>'' @
     ''                <tr>\<newline>'' @
     ''                    <td data-label="NO">'' @
     no @
     ''</td>\<newline>'' @
     ''                    <td data-label="Description" class="description">Motorised Accessories</td>\<newline>'' @
     ''                    <td data-label="QTY" class="align-right">NA</td>\<newline>'' @
     ''                    <td data-label="Price" class="align-right">$'' @
     price @
     ''</td>\<newline>'' @
     ''                    <td data-label="Discounted Price" class="align-right">$'' @
     discounted @
     ''</td>\<newline>'' @
     ''                </tr>\<newline>'' @
     ''            ''\<close>

definition delivery_row :: "string \<Rightarrow> string \<Rightarrow> string \<Rightarrow> string \<Rightarrow> string \<Rightarrow> string" where
  \<open>delivery_row no qty priceClass price discounted =
     ''\<newline>'' @
     ''            <tr>\<newline>'' @
     ''                <td data-label="NO">'' @
     no @
     ''</td>\<newline>'' @
     ''                <td data-label="Description" class="description">Delivery</td>\<newline>'' @
     ''                <td data-label="QTY" class="align-right">'' @
     qty @
     ''</td>\<newline>'' @
     ''                <td data-label="Price" '' @
     priceClass @
     ''>$'' @
     price @
     ''</td>\<newline>'' @
     ''                <td data-label="Discounted Price" class="align-right">$'' @
     discounted @
     ''</td>\<newline>'' @
     ''            </tr>\<newline>'' @
     ''        ''\<close>

definition installation_row :: "string \<Rightarrow> string \<Rightarrow> string \<Rightarrow> string \<Rightarrow> string \<Rightarrow> string" where
  \<open>installation_row no qty priceClass price discounted =
     ''\<newline>'' @
     ''            <tr>\<newline>'' @
     ''                <td data-label="NO">'' @
     no @
     ''</td>\<newline>'' @
     ''                <td data-label="Description" class="description">Installation</td>\<newline>'' @
     ''                <td data-label="QTY" class="align-right">'' @
     qty @
     ''</td>\<newline>'' @
     ''                <td data-label="Price" '' @
     priceClass @
     ''>$'' @
     price @
     ''</td>\<newline>'' @
     ''                <td data-label="Discounted Price" class="align-right">$'' @
     discounted @
     ''</td>\<newline>'' @
     ''            </tr>\<newline>'' @
     ''        ''\<close>

definition removal_row :: "string \<Rightarrow> string \<Rightarrow> string \<Rightarrow> string \<Rightarrow> string \<Rightarrow> string" where
  \<open>removal_row no qty priceClass price discounted =
     ''\<newline>'' @
     ''            <tr>\<newline>'' @
     ''                <td data-label="NO">'' @
     no @
     ''</td>\<newline>'' @
     ''                <td data-label="Description" class="description">Removal</td>\<newline>'' @
     ''                <td data-label="QTY" class="align-right">'' @
     qty @
     ''</td>\<newline>'' @
     ''                <td data-label="Price" '' @
     priceClass @
     ''>$'' @
     price @
     ''</td>\<newline>'' @
     ''                <td data-label="Discounted Price" class="align-right">$'' @
     discounted @
     ''</td>\<newline>'' @
     ''            </tr>\<newline>'' @
     ''        ''\<close>

text \<open>
  The \<open>rows\<close> of \<open>_generatePageOneItemsTableHtml\<close>, before they are joined. The array
  and the counter \<open>itemNumber\<close> are passed from one statement to the next; each
  \<open>${itemNumber++}\<close> prints the counter and the binding after it increments it.
\<close>

definition pageOneRows :: "summaryData \<Rightarrow> quoteData \<Rightarrow> ui \<Rightarrow> string list" where
  \<open>pageOneRows summaryData' quoteData' ui' =
     (let rows = [];
          items = items (rollerBlind (products quoteData'));
          validItemCount = length (filter has_size items);
          rows = rows @
            [roller_blinds_row (ToString (Num (int validItemCount)))
               (toFixed2 (num_or (firstRbPrice summaryData') 0))
               (toFixed2 (num_or (disRbPrice summaryData') 0))];
          itemNumber = (2 :: int);
          (rows, itemNumber) =
            (if positive (acceSum summaryData')
             then (rows @
                     [installation_accessories_row (ToString (Num itemNumber))
                        (toFixed2 (num_or (acceSum summaryData') 0))
                        (toFixed2 (num_or (acceSum summaryData') 0))],
                   itemNumber + 1)
             else (rows, itemNumber));
          (rows, itemNumber) =
            (if positive (eAcceSum summaryData')
             then (rows @
                     [motorised_accessories_row (ToString (Num itemNumber))
                        (toFixed2 (num_or (eAcceSum summaryData') 0))
                        (toFixed2 (num_or (eAcceSum summaryData') 0))],
                   itemNumber + 1)
             else (rows, itemNumber));
          deliveryExcluded = deliveryFeeExcluded (f2 ui');
          deliveryPriceClass =
            (if deliveryExcluded then ''class="align-right is-excluded"''
             else ''class="align-right"'');
          deliveryDiscountedPrice =
            (if deliveryExcluded then 0 else num_or (deliveryFee summaryData') 0);
          rows = rows @
            [delivery_row (ToString (Num itemNumber))
               (ToString (Num (num_or (deliveryQty (f2 ui')) 1)))
               deliveryPriceClass
               (toFixed2 (num_or (deliveryFee summaryData') 0))
               (toFixed2 deliveryDiscountedPrice)];
          itemNumber = itemNumber + 1;
          installExcluded = installFeeExcluded (f2 ui');
          installPriceClass =
            (if installExcluded then ''class="align-right is-excluded"''
             else ''class="align-right"'');
          installDiscountedPrice =
            (if installExcluded then 0 else num_or (installFee summaryData') 0);
          rows = rows @
            [installation_row (ToString (Num itemNumber))
               (ToString (Num (int validItemCount)))
               installPriceClass
               (toFixed2 (num_or (installFee summaryData') 0))
               (toFixed2 installDiscountedPrice)];
          itemNumber = itemNumber + 1;
          removalExcluded = removalFeeExcluded (f2 ui');
          removalPriceClass =
            (if removalExcluded then ''class="align-right is-excluded"''
             else ''class="align-right"'');
          removalDiscountedPrice =
            (if removalExcluded then 0 else num_or (removalFee summaryData') 0);
          rows = rows @
            [removal_row (ToString (Num itemNumber))
               (ToString (Num (num_or (removalQty (f2 ui')) 0)))
               removalPriceClass
               (toFixed2 (num_or (removalFee summaryData') 0))
               (toFixed2 removalDiscountedPrice)]
      in rows)\<close>

definition generatePageOneItemsTableHtml :: "summaryData \<Rightarrow> quoteData \<Rightarrow> ui \<Rightarrow> string" where
  "generatePageOneItemsTableHtml summaryData' quoteData' ui' =
     join [] (pageOneRows summaryData' quoteData' ui')"

section \<open>The customer block\<close>

text \<open>\<open>_formatCustomerInfo\<close>: \<open>html\<close> is extended by one statement after the other.\<close>

definition formatCustomerInfo :: "f3Data \<Rightarrow> string" where
  "formatCustomerInfo f3Data' =
     (let html = ''<strong>'' @ str_or (customerName f3Data') [] @ ''</strong><br>'';
          html = (case customerAddress f3Data' of
                    Some a \<Rightarrow> if a \<noteq> [] then html @ nl_to_br a @ ''<br>'' else html
                  | None \<Rightarrow> html);
          html = (case customerPhone f3Data' of
                    Some p \<Rightarrow> if p \<noteq> [] then html @ ''Phone: '' @ p @ ''<br>'' else html
                  | None \<Rightarrow> html);
          html = (case customerEmail f3Data' of
                    Some e \<Rightarrow> if e \<noteq> [] then html @ ''Email: '' @ e else html
                  | None \<Rightarrow> html)
      in html)"

section \<open>The template data\<close>

text \<open>
  The calculation service is not part of this class: its summary function and the
  price lookup of its configuration manager are taken as they are given.
\<close>

record configManager =
  getAccessoryPrice :: "string \<Rightarrow> rat option"

record calculationService =
  calculateF2Summary :: "quoteData \<Rightarrow> ui \<Rightarrow> summaryData"
  configManager :: configManager

text \<open>\<open>parseFloat\<close> of a number is the number; of an absent value it is \<open>NaN\<close> (\<open>None\<close>).\<close>

definition parseFloat :: "rat option \<Rightarrow> rat option" where
  "parseFloat v = (case v of None \<Rightarrow> None | Some n \<Rightarrow> Some n)"

text \<open>\<open>qty || ''\<close> on a number.\<close>

definition qty_or_empty :: "int \<Rightarrow> int jsval" where
  "qty_or_empty n = (if n = 0 then Str [] else Num n)"

text \<open>
  \<open>_prepareTemplateData\<close>. The object literal it returns is the list of its
  properties in the order of the source. \<open>remote_1ch_qty\<close> is a number or \<open>null\<close>
  (\<open>None\<close>), and \<open>null\<close> counts as 0 in a product.
\<close>

definition prepareTemplateData ::
  "calculationService \<Rightarrow> quoteData \<Rightarrow> ui \<Rightarrow> f3Data \<Rightarrow> (string \<times> int jsval) list" where
  "prepareTemplateData calculationService' quoteData' ui' f3Data' =
     (let summaryData' = calculateF2Summary calculationService' quoteData' ui';
          grandTotal = num_or (parseFloat (finalOfferPrice f3Data')) (num_or (gst summaryData') 0);
          items = items (rollerBlind (products quoteData'));
          configManager' = configManager calculationService';
          motorQty = int (length (filter (\<lambda>item. truthy (motor item)) items));
          motorPrice = num_or (getAccessoryPrice configManager' ''motorStandard'') 0 * of_int motorQty;
          totalRemoteQty = num_or (driveRemoteCount ui') 0;
          remote1chQty = remote_1ch_qty (f1 ui');
          remote16chQty = (case remote_1ch_qty (f1 ui') of
                             None \<Rightarrow> totalRemoteQty
                           | Some q \<Rightarrow> totalRemoteQty - q);
          remotePricePerUnit = num_or (getAccessoryPrice configManager' ''remoteStandard'') 0;
          remote1chPrice = remotePricePerUnit * of_int (case remote1chQty of None \<Rightarrow> 0 | Some q \<Rightarrow> q);
          remote16chPrice = remotePricePerUnit * of_int remote16chQty;
          chargerQty = num_or (driveChargerCount ui') 0;
          chargerPrice = num_or (getAccessoryPrice configManager' ''chargerStandard'') 0 * of_int chargerQty;
          cord3mQty = num_or (driveCordCount ui') 0;
          cord3mPrice = num_or (getAccessoryPrice configManager' ''cord3m'') 0 * of_int cord3mQty;
          documentTitleParts = [];
          documentTitleParts =
            (case quoteId f3Data' of
               Some s \<Rightarrow> if s \<noteq> [] then documentTitleParts @ [s] else documentTitleParts
             | None \<Rightarrow> documentTitleParts);
          documentTitleParts =
            (case customerName f3Data' of
               Some s \<Rightarrow> if s \<noteq> [] then documentTitleParts @ [s] else documentTitleParts
             | None \<Rightarrow> documentTitleParts);
          documentTitleParts =
            (case customerPhone f3Data' of
               Some s \<Rightarrow> if s \<noteq> [] then documentTitleParts @ [s] else documentTitleParts
             | None \<Rightarrow> documentTitleParts);
          documentTitle = join '' '' documentTitleParts
      in [(''documentTitle'', Str documentTitle),
          (''quoteId'', of_str (quoteId f3Data')),
          (''issueDate'', of_str (issueDate f3Data')),
          (''dueDate'', of_str (dueDate f3Data')),
          (''customerInfoHtml'', Str (formatCustomerInfo f3Data')),
          (''itemsTableBody'', Str (generatePageOneItemsTableHtml summaryData' quoteData' ui')),
          (''subtotal'', Str (''$'' @ toFixed2 (num_or (sumPrice summaryData') 0))),
          (''gst'', Str (''$'' @ toFixed2 (grandTotal / (11 / 10) * (1 / 10)))),
          (''grandTotal'', Str (''$'' @ toFixed2 grandTotal)),
          (''deposit'', Str (''$'' @ toFixed2 (grandTotal * (1 / 2)))),
          (''balance'', Str (''$'' @ toFixed2 (grandTotal * (1 / 2)))),
          (''savings'', Str (''$'' @ toFixed2
             (num_or (firstRbPrice summaryData') 0 - num_or (disRbPrice summaryData') 0))),
          (''generalNotes'', Str (nl_to_br (str_or (generalNotes f3Data') []))),
          (''termsAndConditions'', Str (nl_to_br
             (str_or (termsConditions f3Data') ''Standard terms and conditions apply.''))),
          (''rollerBlindsTable'', Str (generateItemsTableHtml items summaryData')),
          (''motorQty'', qty_or_empty motorQty),
          (''motorPrice'', Str (formatPrice (Num motorPrice))),
          (''remote1chQty'', (case remote1chQty of None \<Rightarrow> Str [] | Some q \<Rightarrow> qty_or_empty q)),
          (''remote1chPrice'', Str (formatPrice (Num remote1chPrice))),
          (''remote16chQty'', qty_or_empty remote16chQty),
          (''remote16chPrice'', Str (formatPrice (Num remote16chPrice))),
          (''chargerQty'', qty_or_empty chargerQty),
          (''chargerPrice'', Str (formatPrice (Num chargerPrice))),
          (''cord3mQty'', qty_or_empty cord3mQty),
          (''cord3mPrice'', Str (formatPrice (Num cord3mPrice))),
          (''eAcceSum'', Str (formatPrice (of_num (eAcceSum summaryData'))))])"

section \<open>Placeholder substitution\<close>

text \<open>
  \<^verbatim>\<open>_populateTemplate(template, data) {
      return template.replace(/\{\{\{?([\w\-]+)\}\}\}?/g, (match, key) => {
          return data.hasOwnProperty(key) ? data[key] : match;
      });
  }\<close>
  A key character is a letter, a digit, \<open>_\<close> or \<open>-\<close>. The mapping is the object
  literal of \<open>_prepareTemplateData\<close>, with the properties written there and no other
  of its own: \<open>data.hasOwnProperty(key)\<close> is the test that \<open>key\<close> is in the domain of the
  map.
\<close>

definition is_key_char :: "char \<Rightarrow> bool" where
  "is_key_char c =
     (let n = of_char c :: nat
      in (65 \<le> n \<and> n \<le> 90) \<or> (97 \<le> n \<and> n \<le> 122) \<or> (48 \<le> n \<and> n \<le> 57)
         \<or> c = CHR ''_'' \<or> c = CHR ''-'')"

text \<open>
  One attempt of the pattern at the head of the input: two opening braces, a third
  one if there is one, the longest run of key characters (one at least), two closing
  braces and a third one if there is one. Each greedy choice is final: giving the
  third opening brace back would put a brace where the key must start, and a
  shorter key would put a key character where the closing brace must be. The result
  is the key, the matched text and the input after it.
\<close>

definition match_token :: "string \<Rightarrow> (string \<times> string \<times> string) option" where
  "match_token s =
     (if prefix ''{{'' s
      then (let r0 = drop 2 s;
                (open3, r1) = (if prefix ''{'' r0 then (''{'', drop 1 r0) else ([], r0));
                key = takeWhile is_key_char r1;
                r2 = dropWhile is_key_char r1
            in if key = [] then None
               else if prefix ''}}'' r2
               then (let r3 = drop 2 r2;
                         (close3, r4) = (if prefix ''}'' r3 then (''}'', drop 1 r3) else ([], r3))
                     in Some (key, ''{{'' @ open3 @ key @ ''}}'' @ close3, r4))
               else None)
      else None)"

text \<open>
  The global replacement: the pattern is tried at each position from the left; a
  match is replaced by what the callback returns, coerced to a string, and the scan
  goes on behind it; where there is no match the character is copied.
\<close>

function populateTemplate :: "string \<Rightarrow> (string \<rightharpoonup> int jsval) \<Rightarrow> string" where
  "populateTemplate [] data = []"
| "populateTemplate (c # cs) data =
     (case match_token (c # cs) of
        Some (key, m, rest) \<Rightarrow>
          (case data key of Some v \<Rightarrow> ToString v | None \<Rightarrow> m) @ populateTemplate rest data
      | None \<Rightarrow> c # populateTemplate cs data)"
  by pat_completeness auto
termination
proof (relation "measure (\<lambda>(s, data). length s)")
  show "wf (measure (\<lambda>(s, data :: string \<rightharpoonup> int jsval). length s))"
    by simp
next
  fix c :: char and cs :: string and data :: "string \<rightharpoonup> int jsval"
  assume "match_token (c # cs) = None"
  show "((cs, data), c # cs, data) \<in> measure (\<lambda>(s, data). length s)"
    by simp
next
  fix c :: char and cs :: string and data :: "string \<rightharpoonup> int jsval"
  fix x2 :: "string \<times> string \<times> string" and key :: string and y :: "string \<times> string"
  fix m rest :: string
  assume "match_token (c # cs) = Some x2" and "(key, y) = x2" and "(m, rest) = y"
  then have tok: "match_token (c # cs) = Some (key, m, rest)"
    by simp
  define s where "s = c # cs"
  define r1 where "r1 = (if prefix ''{'' (drop 2 s) then drop 1 (drop 2 s) else drop 2 s)"
  from tok have p: "prefix ''{{'' s"
    by (simp add: match_token_def s_def split: if_splits)
  then have two: "2 \<le> length s"
    by (auto simp: prefix_def)
  have l1: "length r1 \<le> length s - 2"
    by (auto simp del: drop_drop simp: r1_def)
  have l2: "length (dropWhile is_key_char r1) \<le> length r1"
    by (rule length_dropWhile_le)
  from tok p have "length rest \<le> length (dropWhile is_key_char r1)"
    unfolding s_def [symmetric]
    by (auto simp: match_token_def Let_def r1_def split: if_splits)
  with l1 l2 two have "length rest < length s"
    by simp
  then show "((rest, data), c # cs, data) \<in> measure (\<lambda>(s, data). length s)"
    by (simp add: s_def)
qed

section \<open>Splicing the two templates\<close>

text \<open>The first occurrence of a pattern: the text before it and the text after it.\<close>

fun find_first :: "string \<Rightarrow> string \<Rightarrow> (string \<times> string) option" where
  "find_first p [] = (if p = [] then Some ([], []) else None)"
| "find_first p (c # cs) =
     (if prefix p (c # cs) then Some ([], drop (length p) (c # cs))
      else (case find_first p cs of None \<Rightarrow> None | Some (front, rear) \<Rightarrow> Some (c # front, rear)))"

text \<open>
  The replacement text of \<open>String.prototype.replace\<close> with a string pattern: \<open>$$\<close> is a
  dollar sign, \<open>$&\<close> the matched text, \<open>$`\<close> the text before the match and \<open>$'\<close> the text
  after it; there are no groups, so a dollar sign before anything else stands for
  itself.
\<close>

fun getSubstitution :: "string \<Rightarrow> string \<Rightarrow> string \<Rightarrow> string \<Rightarrow> string" where
  "getSubstitution matched front rear [] = []"
| "getSubstitution matched front rear [c] = [c]"
| "getSubstitution matched front rear (c # d # r) =
     (if c = CHR ''$'' \<and> d = CHR ''$'' then CHR ''$'' # getSubstitution matched front rear r
      else if c = CHR ''$'' \<and> d = CHR ''&'' then matched @ getSubstitution matched front rear r
      else if c = CHR ''$'' \<and> d = CHR 0x60 then front @ getSubstitution matched front rear r
      else if c = CHR ''$'' \<and> d = CHR 0x27 then rear @ getSubstitution matched front rear r
      else c # getSubstitution matched front rear (d # r))"

text \<open>\<open>s.replace(pattern, replacement)\<close> with two strings: the first occurrence only.\<close>

definition replace_first :: "string \<Rightarrow> string \<Rightarrow> string \<Rightarrow> string" where
  "replace_first s pattern replacement =
     (case find_first pattern s of
        None \<Rightarrow> s
      | Some (front, rear) \<Rightarrow>
          front @ getSubstitution pattern front rear replacement @ rear)"

text \<open>
  The two patterns of \<open>generateQuoteHtml\<close> ignore case. \<open>prefix_ci p s\<close>: the input
  starts with the lower-case text \<open>p\<close>, in any case.
\<close>

definition prefix_ci :: "string \<Rightarrow> string \<Rightarrow> bool" where
  "prefix_ci p s = (length p \<le> length s \<and> toLowerCase (take (length p) s) = p)"

text \<open>The last position at which the input goes on with \<open>p\<close>: where a greedy \<open>[\s\S]*\<close> stops.\<close>

fun last_index_ci :: "string \<Rightarrow> string \<Rightarrow> nat option" where
  "last_index_ci p [] = (if p = [] then Some 0 else None)"
| "last_index_ci p (c # cs) =
     (case last_index_ci p cs of
        Some j \<Rightarrow> Some (Suc j)
      | None \<Rightarrow> if prefix_ci p (c # cs) then Some 0 else None)"

text \<open>The first position from the left at which an attempt succeeds.\<close>

fun search_first :: "(string \<Rightarrow> 'a option) \<Rightarrow> string \<Rightarrow> 'a option" where
  "search_first attempt [] = attempt []"
| "search_first attempt (c # cs) =
     (case attempt (c # cs) of Some r \<Rightarrow> Some r | None \<Rightarrow> search_first attempt cs)"

text \<open>\<open>/<style>([\s\S]*)<\/style>/i\<close> at the head of the input; the result is the whole match.\<close>

definition style_at :: "string \<Rightarrow> string option" where
  "style_at s =
     (if prefix_ci ''<style>'' s
      then (case last_index_ci ''</style>'' (drop 7 s) of
              Some j \<Rightarrow> Some (take (7 + j + 8) s)
            | None \<Rightarrow> None)
      else None)"

text \<open>
  \<open>/<body[^>]*>([\s\S]*)<\/body>/i\<close> at the head of the input; the result is the group.
  \<open>[^>]*\<close> runs to the first \<open>>\<close>, which must be there.
\<close>

definition body_at :: "string \<Rightarrow> string option" where
  "body_at s =
     (if prefix_ci ''<body'' s
      then (case dropWhile (\<lambda>c. c \<noteq> CHR ''>'') (drop 5 s) of
              [] \<Rightarrow> None
            | c # r \<Rightarrow>
                (case last_index_ci ''</body>'' r of
                   Some j \<Rightarrow> Some (take j r)
                 | None \<Rightarrow> None))
      else None)"

section \<open>The service\<close>

datatype error = Error string

record service =
  calculationService :: calculationService
  quoteTemplate :: string
  detailsTemplate :: string

text \<open>The two fragments that the constructor stores.\<close>

definition actionBarHtml :: string where
  \<open>actionBarHtml =
     ''\<newline>'' @
     ''    <div id="action-bar">\<newline>'' @
     ''        <button id="copy-html-btn">Copy HTML</button>\<newline>'' @
     ''        <button id="print-btn">Print / Save PDF</button>\<newline>'' @
     ''    </div>''\<close>

definition scriptHtml :: string where
  \<open>scriptHtml =
     ''\<newline>'' @
     ''    <script>\<newline>'' @
     ''        document.addEventListener('DOMContentLoaded', function() {\<newline>'' @
     ''            const copyBtn = document.getElementById('copy-html-btn');\<newline>'' @
     ''            const printBtn = document.getElementById('print-btn');\<newline>'' @
     ''            const actionBar = document.getElementById('action-bar');\<newline>'' @
     ''\<newline>'' @
     ''            if (printBtn) {\<newline>'' @
     ''                printBtn.addEventListener('click', function() {\<newline>'' @
     ''                    window.print();\<newline>'' @
     ''                });\<newline>'' @
     ''            }\<newline>'' @
     ''\<newline>'' @
     ''            if (copyBtn) {\<newline>'' @
     ''                copyBtn.addEventListener('click', function() {\<newline>'' @
     ''                    // 1. Temporarily hide the action bar\<newline>'' @
     ''                    actionBar.style.display = 'none';\<newline>'' @
     ''\<newline>'' @
     ''                    // 2. Get the entire HTML of the page, including doctype\<newline>'' @
     ''                    const pageHtml = new XMLSerializer().serializeToString(document);\<newline>'' @
     ''\<newline>'' @
     ''                    // 3. Copy to clipboard\<newline>'' @
     ''                    navigator.clipboard.writeText(pageHtml)\<newline>'' @
     ''                        .then(() => {\<newline>'' @
     ''                            // 4. Show the action bar again\<newline>'' @
     ''                            actionBar.style.display = 'flex';\<newline>'' @
     ''                            alert('HTML copied to clipboard successfully!');\<newline>'' @
     ''                        })\<newline>'' @
     ''                        .catch(err => {\<newline>'' @
     ''                            // 4. Show the action bar again even if it fails\<newline>'' @
     ''                            actionBar.style.display = 'flex';\<newline>'' @
     ''                            console.error('Failed to copy:', err);\<newline>'' @
     ''                            alert('Failed to copy. Please check console for errors.');\<newline>'' @
     ''                        });\<newline>'' @
     ''                });\<newline>'' @
     ''            }\<newline>'' @
     ''        });\<newline>'' @
     ''    </script>''\<close>

text \<open>
  The constructor leaves both templates empty. \<open>_initialize\<close> stores the two fetched
  texts when both requests succeed, and nothing when one fails.
\<close>

definition constructor :: "calculationService \<Rightarrow> service" where
  "constructor calculationService' =
     \<lparr>calculationService = calculationService', quoteTemplate = [], detailsTemplate = []\<rparr>"

definition initialize :: "service \<Rightarrow> (string \<times> string) option \<Rightarrow> service" where
  "initialize this fetched =
     (case fetched of
        Some (q, d) \<Rightarrow> this\<lparr>quoteTemplate := q, detailsTemplate := d\<rparr>
      | None \<Rightarrow> this)"

text \<open>
  \<open>generateQuoteHtml\<close>: \<open>Inr None\<close> is the return of \<open>null\<close>, \<open>Inl\<close> the thrown error.
\<close>

definition generateQuoteHtml ::
  "service \<Rightarrow> quoteData \<Rightarrow> ui \<Rightarrow> f3Data \<Rightarrow> error + string option" where
  "generateQuoteHtml this quoteData' ui' f3Data' =
     (if quoteTemplate this = [] \<or> detailsTemplate this = [] then Inr None
      else
        (let templateData = prepareTemplateData (calculationService this) quoteData' ui' f3Data';
             populatedDetailsPageHtml = populateTemplate (detailsTemplate this) (map_of templateData);
             styleMatch = search_first style_at populatedDetailsPageHtml;
             detailsBodyMatch = search_first body_at populatedDetailsPageHtml
         in case detailsBodyMatch of
              None \<Rightarrow> Inl (Error ''Could not find body content in the details template.'')
            | Some detailsBodyContent \<Rightarrow>
                (let detailsStyleContent = (case styleMatch of Some m \<Rightarrow> m | None \<Rightarrow> []);
                     finalHtml = replace_first (quoteTemplate this) ''</head>''
                                   (detailsStyleContent @ ''</head>'');
                     finalHtml = replace_first finalHtml ''</body>''
                                   (detailsBodyContent @ ''</body>'');
                     finalHtml = populateTemplate finalHtml (map_of templateData);
                     finalHtml = replace_first finalHtml ''<body>'' (''<body>'' @ actionBarHtml);
                     finalHtml = replace_first finalHtml ''</body>'' (scriptHtml @ ''</body>'')
                 in Inr (Some finalHtml))))"

section \<open>Templates as sequences of pieces\<close>

text \<open>
  The specification speaks of tokens \<open>{{key}}\<close> and \<open>{{{key}}}\<close> in a template and of the
  text around them. This second description of a template, written after the
  specification and not after the code, is what \<open>populateTemplate\<close> is compared with:
  a template is a sequence of pieces, and substitution replaces a token by the value
  of its key, when the mapping has one, and keeps every other piece.
\<close>

datatype piece = Text string | Token2 string | Token3 string

fun piece_text :: "piece \<Rightarrow> string" where
  "piece_text (Text t) = t"
| "piece_text (Token2 key) = ''{{'' @ key @ ''}}''"
| "piece_text (Token3 key) = ''{{{'' @ key @ ''}}}''"

definition template_of :: "piece list \<Rightarrow> string" where
  "template_of ps = concat (map piece_text ps)"

fun substitute :: "(string \<rightharpoonup> int jsval) \<Rightarrow> piece \<Rightarrow> string" where
  "substitute data (Text t) = t"
| "substitute data (Token2 key) =
     (case data key of Some v \<Rightarrow> ToString v | None \<Rightarrow> ''{{'' @ key @ ''}}'')"
| "substitute data (Token3 key) =
     (case data key of Some v \<Rightarrow> ToString v | None \<Rightarrow> ''{{{'' @ key @ ''}}}'')"

text \<open>
  For the pieces to be the tokens of the template, the text between two tokens must
  not look like the start or the end of one: an opening brace in it is followed by a
  character other than an opening brace, and it does not start with a closing brace.
  A key is one key character or more.
\<close>

fun no_double_open :: "string \<Rightarrow> bool" where
  "no_double_open [] = True"
| "no_double_open [c] = (c \<noteq> CHR ''{'')"
| "no_double_open (c # d # r) = (\<not> (c = CHR ''{'' \<and> d = CHR ''{'') \<and> no_double_open (d # r))"

fun well_formed :: "piece \<Rightarrow> bool" where
  "well_formed (Text t) = (no_double_open t \<and> \<not> prefix ''}'' t)"
| "well_formed (Token2 key) = (key \<noteq> [] \<and> list_all is_key_char key)"
| "well_formed (Token3 key) = (key \<noteq> [] \<and> list_all is_key_char key)"

section \<open>Example inputs\<close>

text \<open>
  One order: a single motorised screen blind of 100 by 100 at a line price of 50, a
  summary with a price multiplier of 1.1, no installation accessories and
  motorised accessories of 25, and the delivery and removal fees excluded.
\<close>

definition example_item :: item where
  "example_item =
     \<lparr>width = Num 100, height = Num 100, fabric = None, fabricType = Some ''SN'',
      color = None, location = None, winder = None, dual = None, motor = Bool True,
      linePrice = Some 50\<rparr>"

definition sizeless_item :: item where
  "sizeless_item = example_item\<lparr>width := Null\<rparr>"

definition example_quote :: quoteData where
  "example_quote = \<lparr>products = \<lparr>rollerBlind = \<lparr>items = [example_item]\<rparr>\<rparr>\<rparr>"

definition example_summary :: summaryData where
  "example_summary =
     \<lparr>firstRbPrice = Some 60, disRbPrice = Some 55, acceSum = Some 0, eAcceSum = Some 25,
      deliveryFee = Some 20, installFee = Some 30, removalFee = Some 40,
      sumPrice = Some 100, gst = Some 110, mulTimes = Some (11 / 10)\<rparr>"

definition example_ui :: ui where
  "example_ui =
     \<lparr>f1 = \<lparr>remote_1ch_qty = None\<rparr>,
      f2 = \<lparr>deliveryFeeExcluded = True, installFeeExcluded = False,
            removalFeeExcluded = True, deliveryQty = None, removalQty = Some 2\<rparr>,
      driveRemoteCount = Some 1, driveChargerCount = None, driveCordCount = None\<rparr>"

definition example_f3 :: f3Data where
  "example_f3 =
     \<lparr>quoteId = Some ''Q-1'', issueDate = None, dueDate = None, customerName = None,
      customerAddress = None, customerPhone = Some ''0400'', customerEmail = None,
      generalNotes = None, termsConditions = None, finalOfferPrice = Some 0\<rparr>"

definition example_quote_template :: string where
  "example_quote_template = ''<html><head></head><body>{{grandTotal}}</body></html>''"

definition example_details_template :: string where
  \<open>example_details_template = ''<html><body class="d">{{quoteId}}</body></html>''\<close>

definition example_calc :: calculationService where
  "example_calc =
     \<lparr>calculateF2Summary = (\<lambda>q u. example_summary),
      configManager = \<lparr>getAccessoryPrice = (\<lambda>k. Some 250)\<rparr>\<rparr>"

section \<open>Printing\<close>

declare digits_of.simps [simp del]

lemma digits_of_small: "n < 10 \<Longrightarrow> digits_of n = [digit_char n]"
  by (subst digits_of.simps) simp

lemma digits_of_step: "10 \<le> n \<Longrightarrow> digits_of n = digits_of (n div 10) @ [digit_char n]"
  by (subst digits_of.simps) simp

lemma digits_of_nonempty: "digits_of n \<noteq> []"
  by (subst digits_of.simps) simp

text \<open>The padding and the split of \<open>toFixed(2)\<close>: whole part, point, two digits.\<close>

lemma fixed_digits:
  fixes n :: nat
  defines "m \<equiv> digits_of n"
  defines "m' \<equiv> (if length m \<le> 2 then replicate (3 - length m) CHR ''0'' @ m else m)"
  shows "take (length m' - 2) m' @ ''.'' @ drop (length m' - 2) m'
         = digits_of (n div 100) @ ''.'' @ [digit_char (n div 10), digit_char n]"
proof -
  consider "n < 10" | "10 \<le> n" "n < 100" | "100 \<le> n"
    by linarith
  then show ?thesis
  proof cases
    case 1
    then have "m = [digit_char n]"
      by (simp add: m_def digits_of_small)
    moreover from 1 have "n div 100 = 0" "n div 10 = 0"
      by simp_all
    ultimately show ?thesis
      by (simp add: m'_def digits_of_small digit_char_def numeral_3_eq_3)
  next
    case 2
    then have "m = [digit_char (n div 10), digit_char n]"
      by (simp add: m_def digits_of_step digits_of_small)
    moreover from 2 have "n div 100 = 0"
      by simp
    ultimately show ?thesis
      by (simp add: m'_def digits_of_small digit_char_def)
  next
    case 3
    then have "10 \<le> n div 10"
      by simp
    moreover have "n div 10 div 10 = n div 100"
      using div_mult2_eq [of n 10 10] by simp
    ultimately have "m = digits_of (n div 100) @ [digit_char (n div 10), digit_char n]"
      using 3 by (simp add: m_def digits_of_step [of n] digits_of_step [of "n div 10"])
    moreover have "digits_of (n div 100) \<noteq> []"
      by (rule digits_of_nonempty)
    ultimately show ?thesis
      by (simp add: m'_def)
  qed
qed

lemma toFixed2_shape:
  assumes "0 \<le> x"
  shows "toFixed2 x =
     (let n = nat \<lfloor>x * 100 + 1 / 2\<rfloor>
      in digits_of (n div 100) @ ''.'' @ [digit_char (n div 10), digit_char n])"
  using assms fixed_digits [of "nat \<lfloor>x * 100 + 1 / 2\<rfloor>"]
  by (simp add: toFixed2_def Let_def)

text \<open>Evaluation at a given value, \<open>n\<close> being its number of cents.\<close>

lemma toFixed2_eval:
  assumes "0 \<le> x" and "of_nat n \<le> x * 100 + 1 / 2" and "x * 100 + 1 / 2 < of_nat n + 1"
  shows "toFixed2 x = digits_of (n div 100) @ ''.'' @ [digit_char (n div 10), digit_char n]"
proof -
  from assms(2,3) have "\<lfloor>x * 100 + 1 / 2\<rfloor> = int n"
    by (simp add: floor_eq_iff)
  then have "nat \<lfloor>x * 100 + 1 / 2\<rfloor> = n"
    by simp
  with toFixed2_shape [OF assms(1)] show ?thesis
    by (simp add: Let_def)
qed

lemmas digits_eval = digits_of_small digits_of_step digit_char_def

lemma toFixed2_zero: "toFixed2 0 = ''0.00''"
  by (simp add: toFixed2_eval [where n = 0] digits_eval)

lemma example_prices:
  "toFixed2 20 = ''20.00''" "toFixed2 30 = ''30.00''" "toFixed2 40 = ''40.00''"
  "toFixed2 25 = ''25.00''" "toFixed2 110 = ''110.00''" "toFixed2 1200 = ''1200.00''"
  "toFixed2 60 = ''60.00''" "toFixed2 55 = ''55.00''"
  by (simp_all add: toFixed2_eval [where n = 2000] toFixed2_eval [where n = 3000]
        toFixed2_eval [where n = 4000] toFixed2_eval [where n = 2500]
        toFixed2_eval [where n = 11000] toFixed2_eval [where n = 120000]
        toFixed2_eval [where n = 6000] toFixed2_eval [where n = 5500] digits_eval)

lemma example_numbers:
  "int_to_string 1 = ''1''" "int_to_string 2 = ''2''" "int_to_string 3 = ''3''"
  "int_to_string 4 = ''4''" "int_to_string 5 = ''5''"
  by (simp_all add: int_to_string_def digits_eval)

section \<open>The rows of page one\<close>



text \<open>The rows of page one in closed form: the counter is 2, 3 or 4 at the Delivery row.\<close>

lemma pageOneRows_structure:
  fixes s :: summaryData and q :: quoteData and u :: ui
  defines "count \<equiv> ToString (Num (int (length (filter has_size (items (rollerBlind (products q)))))))"
  defines "n \<equiv> 2 + (if positive (acceSum s) then 1 else 0) + (if positive (eAcceSum s) then 1 else 0 :: int)"
  shows "pageOneRows s q u =
     [roller_blinds_row count (toFixed2 (num_or (firstRbPrice s) 0)) (toFixed2 (num_or (disRbPrice s) 0))] @
     (if positive (acceSum s)
      then [installation_accessories_row ''2'' (toFixed2 (num_or (acceSum s) 0)) (toFixed2 (num_or (acceSum s) 0))]
      else []) @
     (if positive (eAcceSum s)
      then [motorised_accessories_row (if positive (acceSum s) then ''3'' else ''2'')
              (toFixed2 (num_or (eAcceSum s) 0)) (toFixed2 (num_or (eAcceSum s) 0))]
      else []) @
     [delivery_row (ToString (Num n)) (ToString (Num (num_or (deliveryQty (f2 u)) 1)))
        (if deliveryFeeExcluded (f2 u) then ''class=\"align-right is-excluded\"'' else ''class=\"align-right\"'')
        (toFixed2 (num_or (deliveryFee s) 0))
        (if deliveryFeeExcluded (f2 u) then ''0.00'' else toFixed2 (num_or (deliveryFee s) 0)),
      installation_row (ToString (Num (n + 1))) count
        (if installFeeExcluded (f2 u) then ''class=\"align-right is-excluded\"'' else ''class=\"align-right\"'')
        (toFixed2 (num_or (installFee s) 0))
        (if installFeeExcluded (f2 u) then ''0.00'' else toFixed2 (num_or (installFee s) 0)),
      removal_row (ToString (Num (n + 2))) (ToString (Num (num_or (removalQty (f2 u)) 0)))
        (if removalFeeExcluded (f2 u) then ''class=\"align-right is-excluded\"'' else ''class=\"align-right\"'')
        (toFixed2 (num_or (removalFee s) 0))
        (if removalFeeExcluded (f2 u) then ''0.00'' else toFixed2 (num_or (removalFee s) 0))]"
  unfolding pageOneRows_def n_def count_def Let_def
  by (cases "positive (acceSum s)"; cases "positive (eAcceSum s)";
      cases "deliveryFeeExcluded (f2 u)"; cases "installFeeExcluded (f2 u)";
      cases "removalFeeExcluded (f2 u)")
     (simp_all add: example_numbers toFixed2_zero)

lemma has_size_lacking:
  "width i = Undefined \<or> width i = Null \<or> height i = Undefined \<or> height i = Null \<Longrightarrow>
   \<not> has_size i"
  by (auto simp: has_size_def)

section \<open>The fields of the template data\<close>

lemma grand_total_lookup:
  fixes cs :: calculationService and q :: quoteData and u :: ui and f :: f3Data
  defines "grandTotal \<equiv>
     num_or (parseFloat (finalOfferPrice f)) (num_or (gst (calculateF2Summary cs q u)) 0)"
  defines "data \<equiv> map_of (prepareTemplateData cs q u f)"
  shows "data ''grandTotal'' = Some (Str (''$'' @ toFixed2 grandTotal))"
    and "data ''gst'' = Some (Str (''$'' @ toFixed2 (grandTotal / (11 / 10) * (1 / 10))))"
    and "data ''deposit'' = Some (Str (''$'' @ toFixed2 (grandTotal * (1 / 2))))"
    and "data ''balance'' = Some (Str (''$'' @ toFixed2 (grandTotal * (1 / 2))))"
  unfolding data_def grandTotal_def prepareTemplateData_def Let_def
  by (simp_all only: map_of_Cons_code list.inject list.distinct char.inject simp_thms
        if_False if_True)

section \<open>Substitution on pieces\<close>

declare populateTemplate.simps [simp del]

lemma match_token_none: "\<not> prefix ''{{'' s \<Longrightarrow> match_token s = None"
  by (cases "prefix ''{{'' s") (simp_all add: match_token_def)

lemma populate_no_match:
  "\<not> prefix ''{{'' (c # cs) \<Longrightarrow> populateTemplate (c # cs) data = c # populateTemplate cs data"
  using match_token_none [of "c # cs"] by (simp add: populateTemplate.simps)

lemma populate_text:
  "no_double_open t \<Longrightarrow> populateTemplate (t @ r) data = t @ populateTemplate r data"
proof (induction t rule: no_double_open.induct)
  case 1
  then show ?case by simp
next
  case (2 c)
  then have "\<not> prefix ''{{'' (c # r)"
    by simp
  then show ?case
    by (simp add: populate_no_match)
next
  case (3 c d r')
  then have "\<not> prefix ''{{'' (c # d # r' @ r)"
    by auto
  with 3 show ?case
    by (simp add: populate_no_match)
qed

lemma key_char_not_brace: "is_key_char c \<Longrightarrow> c \<noteq> CHR ''{'' \<and> c \<noteq> CHR ''}''"
  by (auto simp: is_key_char_def)

lemma key_run:
  assumes "list_all is_key_char key"
  shows "takeWhile is_key_char (key @ CHR ''}'' # r) = key"
    and "dropWhile is_key_char (key @ CHR ''}'' # r) = CHR ''}'' # r"
proof -
  have n: "\<not> is_key_char CHR ''}''"
    by (simp add: is_key_char_def)
  from assms have a: "\<forall>x\<in>set key. is_key_char x"
    by (simp add: list_all_iff)
  from a n show "takeWhile is_key_char (key @ CHR ''}'' # r) = key"
    by (simp add: takeWhile_tail)
  from a n show "dropWhile is_key_char (key @ CHR ''}'' # r) = CHR ''}'' # r"
    by (simp add: dropWhile_append3)
qed

lemma match_token2:
  assumes "key \<noteq> []" "list_all is_key_char key" "\<not> prefix ''}'' r"
  shows "match_token (''{{'' @ key @ ''}}'' @ r) = Some (key, ''{{'' @ key @ ''}}'', r)"
proof -
  from assms obtain c k where k: "key = c # k" "is_key_char c"
    by (cases key) auto
  then have "c \<noteq> CHR ''{''"
    by (simp add: key_char_not_brace)
  with assms key_run [OF assms(2), of "CHR ''}'' # r"] show ?thesis
    by (simp add: match_token_def k Let_def)
qed

lemma match_token3:
  assumes "key \<noteq> []" "list_all is_key_char key"
  shows "match_token (''{{{'' @ key @ ''}}}'' @ r) = Some (key, ''{{{'' @ key @ ''}}}'', r)"
  using assms key_run [OF assms(2), of "''}}'' @ r"]
  by (simp add: match_token_def Let_def)

lemma no_close_append:
  "\<not> prefix ''}'' a \<Longrightarrow> \<not> prefix ''}'' b \<Longrightarrow> \<not> prefix ''}'' (a @ b)"
  by (cases a) auto

lemma template_no_close:
  "list_all well_formed ps \<Longrightarrow> \<not> prefix ''}'' (template_of ps)"
proof (induction ps)
  case Nil
  then show ?case by (simp add: template_of_def)
next
  case (Cons p ps)
  then have "\<not> prefix ''}'' (template_of ps)"
    by simp
  moreover from Cons.prems have "\<not> prefix ''}'' (piece_text p)"
    by (cases p) auto
  ultimately show ?case
    unfolding template_of_def by (simp add: no_close_append)
qed

text \<open>On well-formed pieces the scan of the code and the substitution of the specification agree.\<close>

lemma populate_pieces:
  "list_all well_formed ps \<Longrightarrow>
   populateTemplate (template_of ps) data = concat (map (substitute data) ps)"
proof (induction ps)
  case Nil
  then show ?case
    by (simp add: template_of_def populateTemplate.simps)
next
  case (Cons p ps)
  then have ih: "populateTemplate (template_of ps) data = concat (map (substitute data) ps)"
    and nc: "\<not> prefix ''}'' (template_of ps)"
    by (simp_all add: template_no_close)
  show ?case
  proof (cases p)
    case (Text t)
    with Cons.prems ih show ?thesis
      by (simp add: template_of_def populate_text)
  next
    case (Token2 key)
    with Cons.prems have k: "key \<noteq> []" "list_all is_key_char key"
      by simp_all
    have "populateTemplate (piece_text p @ template_of ps) data
        = substitute data p @ populateTemplate (template_of ps) data"
      unfolding Token2 piece_text.simps substitute.simps
      using match_token2 [OF k nc]
      by (simp add: populateTemplate.simps split: option.splits)
    with ih show ?thesis
      by (simp add: template_of_def)
  next
    case (Token3 key)
    with Cons.prems have k: "key \<noteq> []" "list_all is_key_char key"
      by simp_all
    have "populateTemplate (piece_text p @ template_of ps) data
        = substitute data p @ populateTemplate (template_of ps) data"
      unfolding Token3 piece_text.simps substitute.simps
      using match_token3 [OF k, of "template_of ps"]
      by (simp add: populateTemplate.simps split: option.splits)
    with ih show ?thesis
      by (simp add: template_of_def)
  qed
qed




section \<open>Replacement and the fragments\<close>

lemma find_first_split: "find_first p s = Some (front, rear) \<Longrightarrow> s = front @ p @ rear"
proof (induction s arbitrary: front)
  case Nil
  then show ?case by (simp split: if_splits)
next
  case (Cons c s)
  show ?case
  proof (cases "prefix p (c # s)")
    case True
    with Cons.prems show ?thesis
      by (auto simp: prefix_def)
  next
    case False
    with Cons.prems obtain f where "find_first p s = Some (f, rear)" "front = c # f"
      by (auto split: option.splits)
    with Cons.IH show ?thesis
      by simp
  qed
qed

lemma getSubstitution_plain:
  "CHR ''$'' \<notin> set r \<Longrightarrow> getSubstitution matched front rear r = r"
  by (induction matched front rear r rule: getSubstitution.induct) auto

lemma replace_first_same:
  "CHR ''$'' \<notin> set p \<Longrightarrow> replace_first s p p = s"
  by (auto simp: replace_first_def getSubstitution_plain dest: find_first_split split: option.splits)

lemma quoteId_lookup:
  "map_of (prepareTemplateData cs q u f) ''quoteId'' = Some (of_str (quoteId f))"
  unfolding prepareTemplateData_def Let_def
  by (simp only: map_of_Cons_code list.inject list.distinct char.inject simp_thms
        if_False if_True)

lemma no_dollar: "CHR ''$'' \<notin> set actionBarHtml" "CHR ''$'' \<notin> set scriptHtml"
  by (simp_all add: actionBarHtml_def scriptHtml_def)

section \<open>The cells of a detail row\<close>



section \<open>Claims\<close>

text \<open>
  C3, as amended. The currency formatter prints a number above zero (and below
  \<open>10^21\<close>, where \<open>toFixed\<close> prints plain digits) as a dollar sign, the digits of the
  whole part, a point and exactly two digits, \<open>n\<close> being the number of cents nearest
  to the value. For zero, a negative number, \<open>undefined\<close>, \<open>null\<close>, a string or a
  boolean it returns the empty string.
\<close>

theorem formatPrice_cases:
  "(0 < p \<longrightarrow> p < 10 ^ 21 \<longrightarrow>
       formatPrice (Num p) =
         (let n = nat \<lfloor>p * 100 + 1 / 2\<rfloor>
          in ''$'' @ digits_of (n div 100) @ ''.'' @ [digit_char (n div 10), digit_char n]))
   \<and> (p \<le> 0 \<longrightarrow> formatPrice (Num p) = [])
   \<and> formatPrice Undefined = [] \<and> formatPrice Null = []
   \<and> formatPrice (Str s) = [] \<and> formatPrice (Bool b) = []"
  using toFixed2_shape [of p] by (auto simp: formatPrice_def Let_def)

theorem formatPrice_cases_witness:
  "(0 :: rat) < 1999 / 100 \<and> (1999 / 100 :: rat) < 10 ^ 21
   \<and> formatPrice (Num (1999 / 100)) = ''$19.99'' \<and> formatPrice (Num 0) = []"
proof -
  have h1: "(0 :: rat) < 1999 / 100" and h2: "(1999 / 100 :: rat) < 10 ^ 21"
    by simp_all
  from formatPrice_cases [of "1999 / 100"] h1 h2
  have "formatPrice (Num (1999 / 100)) =
     (let n = nat \<lfloor>(1999 / 100 :: rat) * 100 + 1 / 2\<rfloor>
      in ''$'' @ digits_of (n div 100) @ ''.'' @ [digit_char (n div 10), digit_char n])"
    by blast
  also have "\<dots> = ''$19.99''"
  proof -
    have "\<lfloor>(1999 / 100 :: rat) * 100 + 1 / 2\<rfloor> = 1999"
      by (simp add: floor_eq_iff)
    then show ?thesis
      by (simp add: digits_eval)
  qed
  finally have "formatPrice (Num (1999 / 100)) = ''$19.99''" .
  moreover from formatPrice_cases [of 0] have "formatPrice (Num 0) = []"
    by simp
  ultimately show ?thesis
    using h1 h2 by simp
qed

text \<open>
  C3 as stated fails at the number 0, which is a numeric input not below zero: the
  formatter returns the empty string, not \<open>$0.00\<close>.
\<close>

theorem formatPrice_zero_counterexample:
  "(0 :: rat) \<ge> 0 \<and> formatPrice (Num 0) = [] \<and> formatPrice (Num 0) \<noteq> ''$0.00''"
  by (simp add: formatPrice_def)

text \<open>
  C6. With one of the two cached templates empty, \<open>generateQuoteHtml\<close> returns
  \<open>null\<close>, whatever its arguments are, and throws nothing.
\<close>

theorem generateQuoteHtml_not_loaded:
  "quoteTemplate this = [] \<or> detailsTemplate this = [] \<Longrightarrow>
   generateQuoteHtml this quoteData' ui' f3Data' = Inr None"
  by (simp add: generateQuoteHtml_def)

theorem generateQuoteHtml_not_loaded_witness:
  "quoteTemplate (constructor example_calc) = []
   \<and> generateQuoteHtml (constructor example_calc) example_quote example_ui example_f3 = Inr None
   \<and> generateQuoteHtml (initialize (constructor example_calc) None)
        example_quote example_ui example_f3 = Inr None"
proof -
  have h: "quoteTemplate (constructor example_calc) = []"
    by (simp add: constructor_def)
  then have h': "quoteTemplate (initialize (constructor example_calc) None) = []"
    by (simp add: initialize_def)
  from h h' show ?thesis
    using generateQuoteHtml_not_loaded [of "constructor example_calc"]
      generateQuoteHtml_not_loaded [of "initialize (constructor example_calc) None"]
    by simp
qed






text \<open>
  C4. An item whose width or height is absent (\<open>undefined\<close> or \<open>null\<close>) can be taken out
  of the list of items, wherever it stands, without any change to the rows of the
  detail table, to the detail table, to the rows of page one or to the table of
  page one: it makes no row and it does not count for the quantities of the Roller
  Blinds and Installation rows.
\<close>

theorem lacking_item_ignored:
  assumes "width i = Undefined \<or> width i = Null \<or> height i = Undefined \<or> height i = Null"
  shows "detailRows (xs @ [i] @ ys) s = detailRows (xs @ ys) s
     \<and> generateItemsTableHtml (xs @ [i] @ ys) s = generateItemsTableHtml (xs @ ys) s
     \<and> pageOneRows s \<lparr>products = \<lparr>rollerBlind = \<lparr>items = xs @ [i] @ ys\<rparr>\<rparr>\<rparr> u
       = pageOneRows s \<lparr>products = \<lparr>rollerBlind = \<lparr>items = xs @ ys\<rparr>\<rparr>\<rparr> u
     \<and> generatePageOneItemsTableHtml s \<lparr>products = \<lparr>rollerBlind = \<lparr>items = xs @ [i] @ ys\<rparr>\<rparr>\<rparr> u
       = generatePageOneItemsTableHtml s \<lparr>products = \<lparr>rollerBlind = \<lparr>items = xs @ ys\<rparr>\<rparr>\<rparr> u"
proof -
  from assms have "\<not> has_size i"
    by (rule has_size_lacking)
  then have f: "filter has_size (xs @ [i] @ ys) = filter has_size (xs @ ys)"
    by simp
  have d: "detailRows (xs @ [i] @ ys) s = detailRows (xs @ ys) s"
    unfolding detailRows_def by (simp only: f)
  have p: "pageOneRows s \<lparr>products = \<lparr>rollerBlind = \<lparr>items = xs @ [i] @ ys\<rparr>\<rparr>\<rparr> u
       = pageOneRows s \<lparr>products = \<lparr>rollerBlind = \<lparr>items = xs @ ys\<rparr>\<rparr>\<rparr> u"
    unfolding pageOneRows_structure
    by (simp only: f rollerBlind.simps products.simps quoteData.simps)
  show ?thesis
    unfolding generatePageOneItemsTableHtml_def generateItemsTableHtml_def
    by (simp only: d p simp_thms)
qed

theorem lacking_item_ignored_witness:
  "width sizeless_item = Null
   \<and> detailRows [example_item, sizeless_item] example_summary
       = detailRows [example_item] example_summary
   \<and> length (detailRows [example_item, sizeless_item] example_summary) = 1
   \<and> pageOneRows example_summary
         \<lparr>products = \<lparr>rollerBlind = \<lparr>items = [example_item, sizeless_item]\<rparr>\<rparr>\<rparr> example_ui
       = pageOneRows example_summary example_quote example_ui"
proof -
  have w: "width sizeless_item = Null"
    by (simp add: sizeless_item_def)
  then have "width sizeless_item = Undefined \<or> width sizeless_item = Null
      \<or> height sizeless_item = Undefined \<or> height sizeless_item = Null"
    by simp
  from lacking_item_ignored [OF this, of "[example_item]" "[]" example_summary example_ui]
  have "detailRows [example_item, sizeless_item] example_summary
          = detailRows [example_item] example_summary"
    and "pageOneRows example_summary
           \<lparr>products = \<lparr>rollerBlind = \<lparr>items = [example_item, sizeless_item]\<rparr>\<rparr>\<rparr> example_ui
         = pageOneRows example_summary example_quote example_ui"
    by (simp_all add: example_quote_def)
  moreover have "length (detailRows [example_item] example_summary) = 1"
    by (simp add: detailRows_def example_item_def has_size_def)
  ultimately show ?thesis
    using w by simp
qed

text \<open>
  C10. The customer block is the customer name between \<open><strong>\<close> and
  \<open></strong><br>\<close>, an empty bold element when the name is absent, then the address
  line, the phone line and the e-mail line, each of which is there only when its
  field is present (and not empty).
\<close>

theorem formatCustomerInfo_shape:
  "formatCustomerInfo f =
     ''<strong>'' @ (case customerName f of None \<Rightarrow> [] | Some n \<Rightarrow> n) @ ''</strong><br>'' @
     (case customerAddress f of None \<Rightarrow> []
      | Some a \<Rightarrow> if a = [] then [] else nl_to_br a @ ''<br>'') @
     (case customerPhone f of None \<Rightarrow> []
      | Some p \<Rightarrow> if p = [] then [] else ''Phone: '' @ p @ ''<br>'') @
     (case customerEmail f of None \<Rightarrow> []
      | Some e \<Rightarrow> if e = [] then [] else ''Email: '' @ e)"
  by (simp add: formatCustomerInfo_def Let_def str_or_def split: option.splits)

theorem formatCustomerInfo_shape_witness:
  "customerName example_f3 = None \<and> customerAddress example_f3 = None
   \<and> customerEmail example_f3 = None
   \<and> formatCustomerInfo example_f3 = ''<strong></strong><br>Phone: 0400<br>''
   \<and> formatCustomerInfo (example_f3\<lparr>customerPhone := None\<rparr>) = ''<strong></strong><br>''"
  using formatCustomerInfo_shape [of example_f3]
    formatCustomerInfo_shape [of "example_f3\<lparr>customerPhone := None\<rparr>"]
  by (simp add: example_f3_def)






text \<open>
  C7. With both templates loaded: when the populated detail template has no match of
  the body pattern, \<open>generateQuoteHtml\<close> throws the error and returns no document; when
  it has a body region and no match of the style pattern, the call returns a
  document, and the style fragment put before \<open></head>\<close> is empty, so that the summary
  template goes on unchanged to the four later steps.
\<close>

theorem body_region_required:
  fixes this :: service and q :: quoteData and u :: ui and f :: f3Data
  defines "data \<equiv> map_of (prepareTemplateData (calculationService this) q u f)"
  defines "populated \<equiv> populateTemplate (detailsTemplate this) data"
  assumes "quoteTemplate this \<noteq> []" and "detailsTemplate this \<noteq> []"
  shows "(search_first body_at populated = None \<longrightarrow>
            generateQuoteHtml this q u f
              = Inl (Error ''Could not find body content in the details template.''))
     \<and> (\<forall>body. search_first body_at populated = Some body
                 \<and> search_first style_at populated = None \<longrightarrow>
            generateQuoteHtml this q u f
              = Inr (Some
                  (replace_first
                    (replace_first
                      (populateTemplate
                        (replace_first (quoteTemplate this) ''</body>'' (body @ ''</body>''))
                        data)
                      ''<body>'' (''<body>'' @ actionBarHtml))
                    ''</body>'' (scriptHtml @ ''</body>''))))"
proof -
  have same: "replace_first (quoteTemplate this) ''</head>'' ''</head>'' = quoteTemplate this"
    by (rule replace_first_same) simp
  from assms(3,4) show ?thesis
    unfolding generateQuoteHtml_def data_def populated_def Let_def
    by (simp add: same)
qed
theorem body_region_required_witness:
  \<open>generateQuoteHtml
      \<lparr>calculationService = example_calc, quoteTemplate = example_quote_template,
       detailsTemplate = ''<div>{{quoteId}}</div>''\<rparr> example_quote example_ui example_f3
     = Inl (Error ''Could not find body content in the details template.'')
   \<and> generateQuoteHtml
      \<lparr>calculationService = example_calc, quoteTemplate = example_quote_template,
       detailsTemplate = example_details_template\<rparr> example_quote example_ui example_f3
     = Inr (Some (''<html><head></head><body>'' @ actionBarHtml @ ''$110.00Q-1'' @ scriptHtml @
                  ''</body></html>''))\<close>
proof -
  define data where "data = map_of (prepareTemplateData example_calc example_quote example_ui example_f3)"
  have id: "data ''quoteId'' = Some (Str ''Q-1'')"
    unfolding data_def by (simp add: quoteId_lookup example_f3_def of_str_def)
  have total: "data ''grandTotal'' = Some (Str ''$110.00'')"
    unfolding data_def
    by (simp add: grand_total_lookup(1) example_f3_def example_calc_def example_summary_def
          num_or_def parseFloat_def example_prices)
  have d1: "populateTemplate ''<div>{{quoteId}}</div>'' data = ''<div>Q-1</div>''"
    using populate_pieces [of "[Text ''<div>'', Token2 ''quoteId'', Text ''</div>'']" data] id
    by (simp add: template_of_def is_key_char_def)
  have d2: \<open>populateTemplate example_details_template data = ''<html><body class="d">Q-1</body></html>''\<close>
    using populate_pieces [of \<open>[Text ''<html><body class="d">'', Token2 ''quoteId'', Text ''</body></html>'']\<close> data] id
    by (simp add: template_of_def is_key_char_def example_details_template_def)
  have q: "populateTemplate ''<html><head></head><body>{{grandTotal}}Q-1</body></html>'' data
      = ''<html><head></head><body>$110.00Q-1</body></html>''"
    using populate_pieces [of "[Text ''<html><head></head><body>'', Token2 ''grandTotal'', Text ''Q-1</body></html>'']" data] total
    by (simp add: template_of_def is_key_char_def)
  have b1: "search_first body_at ''<div>Q-1</div>'' = None"
    by (simp add: body_at_def prefix_ci_def toLowerCase_def lower_char_def)
  have b2: \<open>search_first body_at ''<html><body class="d">Q-1</body></html>'' = Some ''Q-1''\<close>
    by (simp add: body_at_def prefix_ci_def toLowerCase_def lower_char_def)
  have s2: \<open>search_first style_at ''<html><body class="d">Q-1</body></html>'' = None\<close>
    by (simp add: style_at_def prefix_ci_def toLowerCase_def lower_char_def)
  have r1: "replace_first example_quote_template ''</body>'' (''Q-1'' @ ''</body>'')
      = ''<html><head></head><body>{{grandTotal}}Q-1</body></html>''"
    by (simp add: replace_first_def example_quote_template_def)
  have r2: "replace_first ''<html><head></head><body>$110.00Q-1</body></html>'' ''<body>''
        (''<body>'' @ actionBarHtml)
      = ''<html><head></head><body>'' @ actionBarHtml @ ''$110.00Q-1</body></html>''"
    using no_dollar by (simp add: replace_first_def getSubstitution_plain)
  have r3: "replace_first (''<html><head></head><body>'' @ actionBarHtml @ ''$110.00Q-1</body></html>'')
        ''</body>'' (scriptHtml @ ''</body>'')
      = ''<html><head></head><body>'' @ actionBarHtml @ ''$110.00Q-1'' @ scriptHtml @ ''</body></html>''"
    using no_dollar(2) by (simp add: replace_first_def getSubstitution_plain actionBarHtml_def)
  have ne: "example_quote_template \<noteq> []" "example_details_template \<noteq> []"
    by (simp_all add: example_quote_template_def example_details_template_def)
  define svc1 where "svc1 = \<lparr>calculationService = example_calc,
    quoteTemplate = example_quote_template, detailsTemplate = ''<div>{{quoteId}}</div>''\<rparr>"
  define svc2 where "svc2 = \<lparr>calculationService = example_calc,
    quoteTemplate = example_quote_template, detailsTemplate = example_details_template\<rparr>"
  have f1: "calculationService svc1 = example_calc" "quoteTemplate svc1 = example_quote_template"
    "detailsTemplate svc1 = ''<div>{{quoteId}}</div>''"
    by (simp_all add: svc1_def)
  have f2: "calculationService svc2 = example_calc" "quoteTemplate svc2 = example_quote_template"
    "detailsTemplate svc2 = example_details_template"
    by (simp_all add: svc2_def)
  have n1: "quoteTemplate svc1 \<noteq> []" "detailsTemplate svc1 \<noteq> []"
    using ne by (simp_all add: f1)
  have n2: "quoteTemplate svc2 \<noteq> []" "detailsTemplate svc2 \<noteq> []"
    using ne by (simp_all add: f2)
  have "search_first body_at (populateTemplate (detailsTemplate svc1)
      (map_of (prepareTemplateData (calculationService svc1) example_quote example_ui example_f3)))
      = None"
    by (simp only: f1 d1 [unfolded data_def] b1)
  from body_region_required [OF n1, of example_quote example_ui example_f3, THEN conjunct1,
    THEN mp, OF this]
  have one: "generateQuoteHtml svc1 example_quote example_ui example_f3
     = Inl (Error ''Could not find body content in the details template.'')" .
  have "search_first body_at (populateTemplate (detailsTemplate svc2)
      (map_of (prepareTemplateData (calculationService svc2) example_quote example_ui example_f3)))
      = Some ''Q-1''
    \<and> search_first style_at (populateTemplate (detailsTemplate svc2)
      (map_of (prepareTemplateData (calculationService svc2) example_quote example_ui example_f3)))
      = None"
    by (simp only: f2 d2 [unfolded data_def] b2 s2 simp_thms)
  from body_region_required [OF n2, of example_quote example_ui example_f3, THEN conjunct2,
    THEN spec, of "''Q-1''", THEN mp, OF this]
  have "generateQuoteHtml svc2 example_quote example_ui example_f3
      = Inr (Some
          (replace_first
            (replace_first
              (populateTemplate
                (replace_first (quoteTemplate svc2) ''</body>'' (''Q-1'' @ ''</body>''))
                (map_of (prepareTemplateData (calculationService svc2) example_quote example_ui
                   example_f3)))
              ''<body>'' (''<body>'' @ actionBarHtml))
            ''</body>'' (scriptHtml @ ''</body>'')))" .
  also have "\<dots> = Inr (Some (''<html><head></head><body>'' @ actionBarHtml @ ''$110.00Q-1'' @
      scriptHtml @ ''</body></html>''))"
    by (simp only: f2 r1 q [unfolded data_def] r2 r3)
  finally have two: "generateQuoteHtml svc2 example_quote example_ui example_f3
      = Inr (Some (''<html><head></head><body>'' @ actionBarHtml @ ''$110.00Q-1'' @
      scriptHtml @ ''</body></html>''))" .
  from one two show ?thesis
    unfolding svc1_def svc2_def by (rule conjI)
qed




end
